theory Spec2Isabelle
  imports Main "HOL-Library.Word"
begin

section \<open>Data model\<close>

text \<open>
  The event router \<^verbatim>\<open>api/routers/events.py\<close> works on three tables. The module
  \<^verbatim>\<open>models\<close> that declares them is not part of the sources at hand; the columns
  below are the ones the router reads and writes.
\<close>

type_synonym byte = "8 word"

datatype EventType = OPEN | CLICK | SUBMITTED | REPORTED | DOWNLOADED_ATTACHMENT

record Campaign =
  c_id :: int
  c_name :: string

record Employee =
  e_id :: int
  e_email :: string

text \<open>
  \<^verbatim>\<open>models.Event(email=..., campaign_id=..., employee_id=..., event_type=..., ip=...)\<close>:
  the object the handlers build. It has neither id nor timestamp until it is inserted.
\<close>

datatype Event = Event string int int EventType string

text \<open>A stored row of the events table.\<close>

record EventRow =
  ev_id :: int
  ev_email :: string
  ev_ip :: string
  ev_event_type :: EventType
  ev_campaign_id :: int
  ev_employee_id :: int
  ev_timestamp :: int

text \<open>The pydantic model \<^verbatim>\<open>EventResponse\<close>.\<close>

record EventResponse =
  r_id :: int
  r_email :: string
  r_ip :: string
  r_event_type :: string
  r_campaign_id :: int
  r_employee_id :: int
  r_campaign_name :: string
  r_timestamp :: int

text \<open>
  Modelled from the spec: the session \<^verbatim>\<open>db\<close> that \<^verbatim>\<open>database.get_db\<close> hands to a
  handler, and the store behind it, are not under src/. The spec describes a transactional
  relational store: objects are added to a pending transaction, a commit inserts them, a
  rollback discards them; the id of a row is generated by the store and its timestamp
  assigned at creation. The store keeps the three tables, the next id it will give out and
  its clock; \<open>pending\<close> holds the objects added since the last commit or rollback. The
  store does not enforce the foreign keys of an event (the spec lets events refer to
  campaigns that do not exist).
\<close>

record Session =
  campaigns :: "Campaign list"
  employees :: "Employee list"
  events :: "EventRow list"
  next_id :: int
  clock :: int
  pending :: "Event list"

fun insert_event :: "Event \<Rightarrow> Session \<Rightarrow> Session" where
  "insert_event (Event email campaign_id employee_id event_type ip) db =
     db\<lparr>events := events db @
            [\<lparr>ev_id = next_id db, ev_email = email, ev_ip = ip, ev_event_type = event_type,
              ev_campaign_id = campaign_id, ev_employee_id = employee_id,
              ev_timestamp = clock db\<rparr>],
        next_id := next_id db + 1\<rparr>"

definition db_add :: "Event \<Rightarrow> Session \<Rightarrow> Session" where
  "db_add event db = db\<lparr>pending := pending db @ [event]\<rparr>"

definition db_commit :: "Session \<Rightarrow> Session" where
  "db_commit db = (fold insert_event (pending db) db)\<lparr>pending := []\<rparr>"

definition db_rollback :: "Session \<Rightarrow> Session" where
  "db_rollback db = db\<lparr>pending := []\<rparr>"

text \<open>
  \<^verbatim>\<open>db.query(models.Campaign).filter(models.Campaign.id == campaign_id).first()\<close> and
  \<^verbatim>\<open>db.query(models.Employee).filter(models.Employee.email == email).first()\<close>: the first
  matching row, or \<^verbatim>\<open>None\<close>.
\<close>

definition query_Campaign_first :: "int \<Rightarrow> Session \<Rightarrow> Campaign option" where
  "query_Campaign_first campaign_id db = find (\<lambda>c. c_id c = campaign_id) (campaigns db)"

definition query_Employee_first :: "string \<Rightarrow> Session \<Rightarrow> Employee option" where
  "query_Employee_first email db = find (\<lambda>e. e_email e = email) (employees db)"

section \<open>Requests, responses and exceptions\<close>

text \<open>
  Of a request the handlers read \<^verbatim>\<open>request.client.host\<close> and, in
  \<^verbatim>\<open>track_submitted\<close>, the submitted form, a dictionary from field names to strings.
  A request always has a client address here, and a form field is a string. A Python
  string is carried as a list of characters (the bytes of its encoding); the handlers
  themselves only compare strings and test them for emptiness.
\<close>

record Request =
  client_host :: string
  form :: "string \<rightharpoonup> string"

text \<open>
  The exceptions raised in the router. \<^verbatim>\<open>HTTPException\<close> is a subclass of
  \<^verbatim>\<open>Exception\<close>, as every exception here. The detail of the exception a handler
  raises in its last \<^verbatim>\<open>except\<close> clause is \<^verbatim>\<open>str(e)\<close>; the rendering of an
  exception as a string is the framework's and is kept symbolic as \<open>Str e\<close>. The
  \<^verbatim>\<open>print\<close> calls of these clauses write to the standard output only and are left out.
\<close>

datatype exn = HTTPException int detail | ValueError | TypeError | BinasciiError
  and detail = Detail string | Str exn

datatype ctx_value = CInt int | CStr string | CRequest Request

datatype Response =
    Response "byte list" string
  | TemplateResponse string "(string \<times> ctx_value) list"
  | JSONDict "(string \<times> string) list"

text \<open>
  A handler ends in a response or in an exception, and leaves a session behind. The two
  shapes of \<^verbatim>\<open>try\<close> statement in the router: the one of \<^verbatim>\<open>track_open\<close> and
  \<^verbatim>\<open>track_submitted\<close> rolls back and re-raises an \<^verbatim>\<open>HTTPException\<close> as it is,
  then turns any other exception into a 500; the one of \<^verbatim>\<open>track_click\<close>,
  \<^verbatim>\<open>track_reported\<close> and the download handler has the clause
  \<^verbatim>\<open>except Exception\<close> only, which also catches an \<^verbatim>\<open>HTTPException\<close>.
\<close>

type_synonym 'a outcome = "(exn + 'a) \<times> Session"

fun except_HTTPException_except_Exception :: "'a outcome \<Rightarrow> 'a outcome" where
  "except_HTTPException_except_Exception (Inr r, db) = (Inr r, db)"
| "except_HTTPException_except_Exception (Inl (HTTPException status_code d), db) =
     (Inl (HTTPException status_code d), db_rollback db)"
| "except_HTTPException_except_Exception (Inl e, db) =
     (Inl (HTTPException 500 (Str e)), db_rollback db)"

fun except_Exception :: "'a outcome \<Rightarrow> 'a outcome" where
  "except_Exception (Inr r, db) = (Inr r, db)"
| "except_Exception (Inl e, db) = (Inl (HTTPException 500 (Str e)), db_rollback db)"

section \<open>Decoding base64\<close>

text \<open>
  \<^verbatim>\<open>base64.b64decode\<close> with its default arguments is \<^verbatim>\<open>binascii.a2b_base64\<close>
  in its lenient mode: characters outside the alphabet are skipped, a character of the
  alphabet adds six bits, and a run of padding that completes a group of four ends the
  input. Input that ends inside a group raises \<^verbatim>\<open>binascii.Error\<close>.
\<close>

definition table_a2b_base64 :: "char \<Rightarrow> nat option" where
  "table_a2b_base64 c =
     (let n = (of_char c :: nat) in
      if 65 \<le> n \<and> n \<le> 90 then Some (n - 65)
      else if 97 \<le> n \<and> n \<le> 122 then Some (n - 71)
      else if 48 \<le> n \<and> n \<le> 57 then Some (n + 4)
      else if n = 43 then Some 62
      else if n = 47 then Some 63
      else None)"

fun a2b_base64 :: "nat \<Rightarrow> nat \<Rightarrow> nat \<Rightarrow> byte list \<Rightarrow> string \<Rightarrow> exn + byte list" where
  "a2b_base64 quad_pos leftchar pads bin_data [] =
     (if quad_pos \<noteq> 0 then Inl BinasciiError else Inr bin_data)"
| "a2b_base64 quad_pos leftchar pads bin_data (this_ch # rest) =
     (if this_ch = CHR ''='' then
        (if 2 \<le> quad_pos \<and> 4 \<le> quad_pos + (pads + 1) then Inr bin_data
         else a2b_base64 quad_pos leftchar (if 2 \<le> quad_pos then pads + 1 else pads)
                bin_data rest)
      else
        (case table_a2b_base64 this_ch of
           None \<Rightarrow> a2b_base64 quad_pos leftchar pads bin_data rest
         | Some v \<Rightarrow>
             (if quad_pos = 0 then a2b_base64 1 v 0 bin_data rest
              else if quad_pos = 1 then
                a2b_base64 2 (v mod 16) 0 (bin_data @ [of_nat (leftchar * 4 + v div 16)]) rest
              else if quad_pos = 2 then
                a2b_base64 3 (v mod 4) 0 (bin_data @ [of_nat (leftchar * 16 + v div 4)]) rest
              else a2b_base64 0 0 0 (bin_data @ [of_nat (leftchar * 64 + v)]) rest)))"

definition b64decode :: "string \<Rightarrow> exn + byte list" where
  "b64decode s = a2b_base64 0 0 0 [] s"

section \<open>The tracking handlers\<close>

definition ONE_PIXEL_GIF_BASE64 :: string where
  "ONE_PIXEL_GIF_BASE64 = ''R0lGODlhAQABAPAAAAAAAAAAACH5BAEAAAAALAAAAAABAAEAAAICRAEAOw==''"

definition track_open :: "Request \<Rightarrow> string \<Rightarrow> int \<Rightarrow> Session \<Rightarrow> Response outcome" where
  "track_open request email campaign_id db =
     except_HTTPException_except_Exception
       (case b64decode ONE_PIXEL_GIF_BASE64 of
          Inl e \<Rightarrow> (Inl e, db)
        | Inr ONE_PIXEL_GIF \<Rightarrow>
            (case query_Campaign_first campaign_id db of
               None \<Rightarrow> (Inl (HTTPException 404 (Detail ''Campaign not found'')), db)
             | Some campaign \<Rightarrow>
                 (case query_Employee_first email db of
                    None \<Rightarrow> (Inl (HTTPException 404 (Detail ''Employee not found'')), db)
                  | Some employee \<Rightarrow>
                      (let event = Event email campaign_id (e_id employee) OPEN
                                     (client_host request);
                           db = db_add event db;
                           db = db_commit db
                       in (Inr (Response ONE_PIXEL_GIF ''image/gif''), db)))))"

definition track_click :: "Request \<Rightarrow> string \<Rightarrow> int \<Rightarrow> Session \<Rightarrow> Response outcome" where
  "track_click request email campaign_id db =
     except_Exception
       (case query_Campaign_first campaign_id db of
          None \<Rightarrow> (Inl (HTTPException 404 (Detail ''Campaign not found'')), db)
        | Some campaign \<Rightarrow>
            (case query_Employee_first email db of
               None \<Rightarrow> (Inl (HTTPException 404 (Detail ''Employee not found'')), db)
             | Some employee \<Rightarrow>
                 (let event = Event email campaign_id (e_id employee) CLICK
                                (client_host request);
                      db = db_add event db;
                      db = db_commit db
                  in (Inr (TemplateResponse ''submission.html''
                             [(''request'', CRequest request),
                              (''campaign_id'', CInt campaign_id),
                              (''employee_email'', CStr email),
                              (''employee_id'', CInt (e_id employee))]), db))))"

subsection \<open>Form values and \<^verbatim>\<open>int\<close>\<close>

text \<open>
  \<^verbatim>\<open>form.get(name)\<close> is \<^verbatim>\<open>None\<close> for a field the form does not carry. Python's
  truth test of such a value: \<^verbatim>\<open>None\<close> and the empty string are false.
\<close>

definition truthy :: "string option \<Rightarrow> bool" where
  "truthy v = (case v of None \<Rightarrow> False | Some s \<Rightarrow> s \<noteq> [])"

text \<open>
  \<^verbatim>\<open>int(s)\<close> on a string either returns an integer or raises \<^verbatim>\<open>ValueError\<close>.
  Which strings it accepts is the interpreter's matter (white space around the number, a
  sign, underscores between digits, the decimal digits of any script, a limit on the number
  of digits) and no part of the router: the conversion is the parameter \<open>int_of_str\<close>
  of the handler, with \<open>None\<close> for the \<^verbatim>\<open>ValueError\<close>. \<^verbatim>\<open>int(None)\<close> raises
  \<^verbatim>\<open>TypeError\<close>.
\<close>

definition int_of_value :: "(string \<Rightarrow> int option) \<Rightarrow> string option \<Rightarrow> exn + int" where
  "int_of_value int_of_str v =
     (case v of
        None \<Rightarrow> Inl TypeError
      | Some s \<Rightarrow> (case int_of_str s of None \<Rightarrow> Inl ValueError | Some n \<Rightarrow> Inr n))"

text \<open>
  The inner \<^verbatim>\<open>try\<close> of \<^verbatim>\<open>track_submitted\<close>: both conversions, the first failure
  ending the block, and \<^verbatim>\<open>except ValueError\<close> raising the 400.
\<close>

definition convert_ids ::
  "(string \<Rightarrow> int option) \<Rightarrow> string option \<Rightarrow> string option \<Rightarrow> exn + (int \<times> int)" where
  "convert_ids int_of_str campaign_id employee_id =
     (case (case int_of_value int_of_str campaign_id of
              Inl e \<Rightarrow> Inl e
            | Inr c \<Rightarrow>
                (case int_of_value int_of_str employee_id of
                   Inl e \<Rightarrow> Inl e
                 | Inr e \<Rightarrow> Inr (c, e)))
      of Inl ValueError \<Rightarrow> Inl (HTTPException 400 (Detail ''Invalid ID format''))
       | Inl e \<Rightarrow> Inl e
       | Inr ids \<Rightarrow> Inr ids)"

definition track_submitted ::
  "(string \<Rightarrow> int option) \<Rightarrow> Request \<Rightarrow> Session \<Rightarrow> Response outcome" where
  "track_submitted int_of_str request db =
     except_HTTPException_except_Exception
       (let email = form request ''employee_email'';
            campaign_id = form request ''campaign_id'';
            employee_id = form request ''employee_id''
        in if \<not> list_all truthy [email, campaign_id, employee_id] then
             (Inl (HTTPException 400 (Detail ''Missing required fields'')), db)
           else
             (case convert_ids int_of_str campaign_id employee_id of
                Inl e \<Rightarrow> (Inl e, db)
              | Inr (campaign_id, employee_id) \<Rightarrow>
                  (let event = Event (the email) campaign_id employee_id SUBMITTED
                                 (client_host request);
                       db = db_add event db;
                       db = db_commit db
                   in (Inr (TemplateResponse ''training.html''
                              [(''request'', CRequest request),
                               (''campaign_id'', CInt campaign_id),
                               (''email'', CStr (the email))]), db))))"

definition track_reported :: "Request \<Rightarrow> string \<Rightarrow> int \<Rightarrow> Session \<Rightarrow> Response outcome" where
  "track_reported request email campaign_id db =
     except_Exception
       (case query_Employee_first email db of
          None \<Rightarrow> (Inl (HTTPException 404 (Detail ''Employee not found'')), db)
        | Some employee \<Rightarrow>
            (let event = Event email campaign_id (e_id employee) REPORTED
                           (client_host request);
                 db = db_add event db;
                 db = db_commit db
             in (Inr (TemplateResponse ''reported.html'' [(''request'', CRequest request)]),
                 db)))"

text \<open>
  The handler of \<^verbatim>\<open>GET /events/track_downloaded\<close>. The source names this function
  \<^verbatim>\<open>track_reported\<close> a second time; the router keeps both, each under its own path.
\<close>

definition track_downloaded :: "Request \<Rightarrow> string \<Rightarrow> int \<Rightarrow> Session \<Rightarrow> Response outcome" where
  "track_downloaded request email campaign_id db =
     except_Exception
       (case query_Employee_first email db of
          None \<Rightarrow> (Inl (HTTPException 404 (Detail ''Employee not found'')), db)
        | Some employee \<Rightarrow>
            (let event = Event email campaign_id (e_id employee) DOWNLOADED_ATTACHMENT
                           (client_host request);
                 db = db_add event db;
                 db = db_commit db
             in (Inr (JSONDict [(''status'', ''success'')]), db)))"

section \<open>Listing events\<close>

text \<open>
  Modelled from the spec: the foreign key that
  \<^verbatim>\<open>db.query(models.Event, models.Campaign.name.label("campaign_name")).join(models.Campaign)\<close>
  joins on is declared in \<^verbatim>\<open>models\<close>, not under src/; by the spec the \<open>campaign_id\<close>
  of an event refers to the id of a campaign. The join is an inner join: one result row for
  every pair of an event and a campaign with that id.
\<close>

definition join_Campaign :: "Session \<Rightarrow> (EventRow \<times> string) list" where
  "join_Campaign db =
     concat (map (\<lambda>ev. map (\<lambda>c. (ev, c_name c))
                          (filter (\<lambda>c. c_id c = ev_campaign_id ev) (campaigns db)))
                 (events db))"

text \<open>
  The \<^verbatim>\<open>EventResponse(...)\<close> of the list comprehension. The strings that the members of
  the enumeration carry as \<^verbatim>\<open>.value\<close> are declared in \<^verbatim>\<open>models\<close>; they are the
  parameter \<open>value\<close>.
\<close>

definition to_EventResponse :: "(EventType \<Rightarrow> string) \<Rightarrow> EventRow \<times> string \<Rightarrow> EventResponse" where
  "to_EventResponse value event =
     \<lparr>r_id = ev_id (fst event), r_email = ev_email (fst event), r_ip = ev_ip (fst event),
      r_event_type = value (ev_event_type (fst event)),
      r_campaign_id = ev_campaign_id (fst event),
      r_employee_id = ev_employee_id (fst event),
      r_campaign_name = snd event, r_timestamp = ev_timestamp (fst event)\<rparr>"

text \<open>
  \<^verbatim>\<open>if campaign_id:\<close> tests an optional integer for truth: \<^verbatim>\<open>None\<close> and \<open>0\<close> are
  false.
\<close>

definition get_events ::
  "(EventType \<Rightarrow> string) \<Rightarrow> int option \<Rightarrow> int option \<Rightarrow> Session \<Rightarrow> EventResponse list outcome" where
  "get_events value campaign_id employee_id db =
     (let query = join_Campaign db;
          query = (case campaign_id of
                     None \<Rightarrow> query
                   | Some x \<Rightarrow>
                       if x \<noteq> 0 then filter (\<lambda>row. ev_campaign_id (fst row) = x) query
                       else query);
          query = (case employee_id of
                     None \<Rightarrow> query
                   | Some y \<Rightarrow>
                       if y \<noteq> 0 then filter (\<lambda>row. ev_employee_id (fst row) = y) query
                       else query)
      in (Inr (map (to_EventResponse value) query), db))"

section \<open>Examples\<close>

text \<open>
  The scenario of the specification: one campaign, one employee, no events yet, and a
  request from some address. \<open>member_name\<close> stands for the values of the enumeration in
  the examples.
\<close>

definition pixel_bytes :: "byte list" where
  "pixel_bytes =
     [71, 73, 70, 56, 57, 97, 1, 0, 1, 0, 240, 0, 0, 0, 0, 0, 0, 0, 0, 33, 249, 4, 1, 0,
      0, 0, 0, 44, 0, 0, 0, 0, 1, 0, 1, 0, 0, 2, 2, 68, 1, 0, 59]"

definition example_db :: Session where
  "example_db =
     \<lparr>campaigns = [\<lparr>c_id = 1, c_name = ''Q1 Phish''\<rparr>],
      employees = [\<lparr>e_id = 7, e_email = ''a@x.com''\<rparr>],
      events = [], next_id = 1, clock = 1000, pending = []\<rparr>"

definition example_request :: Request where
  "example_request = \<lparr>client_host = ''10.0.0.5'', form = Map.empty\<rparr>"

text \<open>
  The values of \<^verbatim>\<open>int\<close> on the id strings of the examples: four numerals that it
  reads, and \<^verbatim>\<open>abc\<close>, on which it raises \<^verbatim>\<open>ValueError\<close>.
\<close>

definition int_on_examples :: "string \<Rightarrow> int option" where
  "int_on_examples = [''1'' \<mapsto> 1, ''5'' \<mapsto> 5, ''7'' \<mapsto> 7, ''42'' \<mapsto> 42]"

text \<open>
  Three submitted forms: one naming a campaign and an employee that the example store does
  not hold, one with an empty email field, one whose campaign id is no number.
\<close>

definition submitted_request :: Request where
  "submitted_request =
     \<lparr>client_host = ''10.0.0.5'',
      form = [''employee_email'' \<mapsto> ''a@x.com'', ''campaign_id'' \<mapsto> ''5'',
              ''employee_id'' \<mapsto> ''42'']\<rparr>"

definition blank_email_request :: Request where
  "blank_email_request =
     \<lparr>client_host = ''10.0.0.5'',
      form = [''employee_email'' \<mapsto> '''', ''campaign_id'' \<mapsto> ''1'',
              ''employee_id'' \<mapsto> ''7'']\<rparr>"

definition abc_request :: Request where
  "abc_request =
     \<lparr>client_host = ''10.0.0.5'',
      form = [''employee_email'' \<mapsto> ''a@x.com'', ''campaign_id'' \<mapsto> ''abc'',
              ''employee_id'' \<mapsto> ''7'']\<rparr>"

text \<open>
  A store of two events, the second of a campaign that does not exist, with the one row a
  listing of it returns; and the example store after the form of \<open>submitted_request\<close>
  has been recorded.
\<close>

definition listed_db :: Session where
  "listed_db =
     \<lparr>campaigns = [\<lparr>c_id = 1, c_name = ''Q1 Phish''\<rparr>],
      employees = [\<lparr>e_id = 7, e_email = ''a@x.com''\<rparr>],
      events = [\<lparr>ev_id = 1, ev_email = ''a@x.com'', ev_ip = ''10.0.0.5'',
                 ev_event_type = OPEN, ev_campaign_id = 1, ev_employee_id = 7,
                 ev_timestamp = 1000\<rparr>,
                \<lparr>ev_id = 2, ev_email = ''a@x.com'', ev_ip = ''10.0.0.5'',
                 ev_event_type = SUBMITTED, ev_campaign_id = 5, ev_employee_id = 42,
                 ev_timestamp = 1001\<rparr>],
      next_id = 3, clock = 1002, pending = []\<rparr>"

definition listed_view :: EventResponse where
  "listed_view =
     \<lparr>r_id = 1, r_email = ''a@x.com'', r_ip = ''10.0.0.5'', r_event_type = ''OPEN'',
      r_campaign_id = 1, r_employee_id = 7, r_campaign_name = ''Q1 Phish'',
      r_timestamp = 1000\<rparr>"

definition submitted_db :: Session where
  "submitted_db =
     example_db\<lparr>events := [\<lparr>ev_id = 1, ev_email = ''a@x.com'', ev_ip = ''10.0.0.5'',
                              ev_event_type = SUBMITTED, ev_campaign_id = 5,
                              ev_employee_id = 42, ev_timestamp = 1000\<rparr>],
                next_id := 2\<rparr>"

fun member_name :: "EventType \<Rightarrow> string" where
  "member_name OPEN = ''OPEN''"
| "member_name CLICK = ''CLICK''"
| "member_name SUBMITTED = ''SUBMITTED''"
| "member_name REPORTED = ''REPORTED''"
| "member_name DOWNLOADED_ATTACHMENT = ''DOWNLOADED_ATTACHMENT''"

section \<open>Properties of the store and the decoder\<close>

lemma ONE_PIXEL_GIF_bytes: "b64decode ONE_PIXEL_GIF_BASE64 = Inr pixel_bytes"
  by (simp add: b64decode_def ONE_PIXEL_GIF_BASE64_def table_a2b_base64_def pixel_bytes_def)

lemma add_commit:
  "pending db = [] \<Longrightarrow>
   db_commit (db_add (Event email campaign_id employee_id event_type ip) db) =
     db\<lparr>events := events db @
            [\<lparr>ev_id = next_id db, ev_email = email, ev_ip = ip, ev_event_type = event_type,
              ev_campaign_id = campaign_id, ev_employee_id = employee_id,
              ev_timestamp = clock db\<rparr>],
        next_id := next_id db + 1\<rparr>"
  by (simp add: db_commit_def db_add_def)

lemma find_Some_if_exists: "\<exists>x\<in>set xs. P x \<Longrightarrow> \<exists>y\<in>set xs. P y \<and> find P xs = Some y"
  by (induction xs) auto

lemma query_Campaign_first_exists:
  "\<exists>c\<in>set (campaigns db). c_id c = campaign_id \<Longrightarrow>
   \<exists>c. query_Campaign_first campaign_id db = Some c"
  unfolding query_Campaign_first_def
  using find_Some_if_exists [of "campaigns db" "\<lambda>c. c_id c = campaign_id"] by blast

lemma query_Employee_first_exists:
  "\<exists>e\<in>set (employees db). e_email e = email \<Longrightarrow>
   \<exists>e\<in>set (employees db). e_email e = email \<and> query_Employee_first email db = Some e"
  unfolding query_Employee_first_def
  using find_Some_if_exists [of "employees db" "\<lambda>e. e_email e = email"] by blast

lemma track_open_found:
  assumes "query_Campaign_first campaign_id db = Some c"
    and "query_Employee_first email db = Some employee"
    and "pending db = []"
  shows "track_open request email campaign_id db =
          (Inr (Response pixel_bytes ''image/gif''),
           db\<lparr>events := events db @
                  [\<lparr>ev_id = next_id db, ev_email = email, ev_ip = client_host request,
                    ev_event_type = OPEN, ev_campaign_id = campaign_id,
                    ev_employee_id = e_id employee, ev_timestamp = clock db\<rparr>],
              next_id := next_id db + 1\<rparr>)"
  unfolding track_open_def ONE_PIXEL_GIF_bytes
  by (simp add: assms(1,2) add_commit [OF assms(3)])


section \<open>Opening a message\<close>

text \<open>
  C1 (as amended). A handler is given a session of its own, with nothing pending. For every
  request to \<open>track_open\<close> for which a campaign with the given id and an employee with the
  given email exist, exactly one row is appended to the events: of kind \<open>OPEN\<close>, with the
  supplied email, the campaign id, the id of the employee found by the email and the
  client's address. The body of the response is the decoded pixel string, the same bytes
  whatever the request and the store; they are 43 bytes.
\<close>

theorem C1_track_open_creates_open_event:
  assumes "\<exists>c\<in>set (campaigns db). c_id c = campaign_id"
    and "\<exists>e\<in>set (employees db). e_email e = email"
    and "pending db = []"
  shows "\<exists>employee\<in>set (employees db).
           e_email employee = email \<and>
           query_Employee_first email db = Some employee \<and>
           track_open request email campaign_id db =
             (Inr (Response pixel_bytes ''image/gif''),
              db\<lparr>events := events db @
                     [\<lparr>ev_id = next_id db, ev_email = email, ev_ip = client_host request,
                       ev_event_type = OPEN, ev_campaign_id = campaign_id,
                       ev_employee_id = e_id employee, ev_timestamp = clock db\<rparr>],
                 next_id := next_id db + 1\<rparr>) \<and>
           b64decode ONE_PIXEL_GIF_BASE64 = Inr pixel_bytes \<and>
           length pixel_bytes = 43"
proof -
  from query_Campaign_first_exists [OF assms(1)]
  obtain c where c: "query_Campaign_first campaign_id db = Some c" ..
  from query_Employee_first_exists [OF assms(2)]
  obtain employee where e: "employee \<in> set (employees db)" "e_email employee = email"
    "query_Employee_first email db = Some employee" by blast
  note run = track_open_found [OF c e(3) assms(3), of request]
  have len: "length pixel_bytes = 43"
    by (simp add: pixel_bytes_def)
  show ?thesis
  proof (rule bexI [OF _ e(1)], intro conjI)
    show "e_email employee = email" by (rule e(2))
    show "query_Employee_first email db = Some employee" by (rule e(3))
    show "b64decode ONE_PIXEL_GIF_BASE64 = Inr pixel_bytes" by (rule ONE_PIXEL_GIF_bytes)
    show "length pixel_bytes = 43" by (rule len)
  qed (rule run)
qed

text \<open>The scenario of the specification satisfies the hypotheses of C1.\<close>

theorem C1_witness:
  "(\<exists>c\<in>set (campaigns example_db). c_id c = 1) \<and>
   (\<exists>e\<in>set (employees example_db). e_email e = ''a@x.com'') \<and>
   pending example_db = [] \<and>
   track_open example_request ''a@x.com'' 1 example_db =
     (Inr (Response pixel_bytes ''image/gif''),
      example_db\<lparr>events := [\<lparr>ev_id = 1, ev_email = ''a@x.com'', ev_ip = ''10.0.0.5'',
                               ev_event_type = OPEN, ev_campaign_id = 1,
                               ev_employee_id = 7, ev_timestamp = 1000\<rparr>],
                 next_id := 2\<rparr>)"
proof -
  have h1: "\<exists>c\<in>set (campaigns example_db). c_id c = 1"
    by (simp add: example_db_def)
  have h2: "\<exists>e\<in>set (employees example_db). e_email e = ''a@x.com''"
    by (simp add: example_db_def)
  have h3: "pending example_db = []"
    by (simp add: example_db_def)
  from C1_track_open_creates_open_event [OF h1 h2 h3, of example_request]
  have "track_open example_request ''a@x.com'' 1 example_db =
     (Inr (Response pixel_bytes ''image/gif''),
      example_db\<lparr>events := [\<lparr>ev_id = 1, ev_email = ''a@x.com'', ev_ip = ''10.0.0.5'',
                               ev_event_type = OPEN, ev_campaign_id = 1,
                               ev_employee_id = 7, ev_timestamp = 1000\<rparr>],
                 next_id := 2\<rparr>)"
    by (auto simp: example_db_def example_request_def)
  with h1 h2 h3 show ?thesis by blast
qed

text \<open>
  C1 as stated speaks of a 42-byte image. In the scenario of the specification, where the
  campaign and the employee exist, the body served has another length.
\<close>

theorem C1_counterexample:
  "query_Campaign_first 1 example_db = Some \<lparr>c_id = 1, c_name = ''Q1 Phish''\<rparr> \<and>
   query_Employee_first ''a@x.com'' example_db = Some \<lparr>e_id = 7, e_email = ''a@x.com''\<rparr> \<and>
   fst (track_open example_request ''a@x.com'' 1 example_db) =
     Inr (Response pixel_bytes ''image/gif'') \<and>
   length pixel_bytes \<noteq> 42"
proof -
  have c: "query_Campaign_first 1 example_db = Some \<lparr>c_id = 1, c_name = ''Q1 Phish''\<rparr>"
    by (simp add: query_Campaign_first_def example_db_def)
  have e: "query_Employee_first ''a@x.com'' example_db =
             Some \<lparr>e_id = 7, e_email = ''a@x.com''\<rparr>"
    by (simp add: query_Employee_first_def example_db_def)
  have p: "pending example_db = []"
    by (simp add: example_db_def)
  have "length pixel_bytes \<noteq> 42"
    by (simp add: pixel_bytes_def)
  with c e track_open_found [OF c e p, of example_request] show ?thesis
    by simp
qed

section \<open>Unknown employee, unknown campaign\<close>

text \<open>
  What the handlers do whenever a lookup finds nothing. All of them roll the session back,
  so the events stay as they were; \<open>track_open\<close> raises the 404, the other three
  raise a 500 that wraps it.
\<close>

lemma track_open_not_found:
  assumes "query_Campaign_first campaign_id db = None \<or> query_Employee_first email db = None"
  shows "\<exists>d. track_open request email campaign_id db =
               (Inl (HTTPException 404 (Detail d)), db_rollback db)"
  using assms unfolding track_open_def ONE_PIXEL_GIF_bytes
  by (auto split: option.splits)

lemma track_click_not_found:
  assumes "query_Campaign_first campaign_id db = None \<or> query_Employee_first email db = None"
  shows "\<exists>d. track_click request email campaign_id db =
               (Inl (HTTPException 500 (Str (HTTPException 404 (Detail d)))), db_rollback db)"
  using assms unfolding track_click_def
  by (auto split: option.splits)

lemma track_reported_not_found:
  assumes "query_Employee_first email db = None"
  shows "track_reported request email campaign_id db =
           (Inl (HTTPException 500 (Str (HTTPException 404 (Detail ''Employee not found'')))),
            db_rollback db)"
  using assms unfolding track_reported_def by simp

lemma track_downloaded_not_found:
  assumes "query_Employee_first email db = None"
  shows "track_downloaded request email campaign_id db =
           (Inl (HTTPException 500 (Str (HTTPException 404 (Detail ''Employee not found'')))),
            db_rollback db)"
  using assms unfolding track_downloaded_def by simp

text \<open>
  C2 at a request whose email matches no employee: \<open>track_open\<close> raises the 404 and
  leaves the store as it was. In \<open>track_click\<close>, \<open>track_reported\<close> and
  \<open>track_downloaded\<close> the same 404 is caught by \<^verbatim>\<open>except Exception\<close> and raised
  again with the status 500; the store is left as it was.
\<close>

theorem C2_unknown_employee_evaluated:
  "query_Employee_first ''missing@x.com'' example_db = None \<and>
   track_open example_request ''missing@x.com'' 1 example_db =
     (Inl (HTTPException 404 (Detail ''Employee not found'')), example_db) \<and>
   track_click example_request ''missing@x.com'' 1 example_db =
     (Inl (HTTPException 500 (Str (HTTPException 404 (Detail ''Employee not found'')))),
      example_db) \<and>
   track_reported example_request ''missing@x.com'' 1 example_db =
     (Inl (HTTPException 500 (Str (HTTPException 404 (Detail ''Employee not found'')))),
      example_db) \<and>
   track_downloaded example_request ''missing@x.com'' 1 example_db =
     (Inl (HTTPException 500 (Str (HTTPException 404 (Detail ''Employee not found'')))),
      example_db)"
proof -
  have c: "query_Campaign_first 1 example_db = Some \<lparr>c_id = 1, c_name = ''Q1 Phish''\<rparr>"
    by (simp add: query_Campaign_first_def example_db_def)
  have e: "query_Employee_first ''missing@x.com'' example_db = None"
    by (simp add: query_Employee_first_def example_db_def)
  have r: "db_rollback example_db = example_db"
    by (simp add: db_rollback_def example_db_def)
  show ?thesis
    unfolding track_open_def track_click_def track_reported_def track_downloaded_def
      ONE_PIXEL_GIF_bytes
    by (simp add: c e r)
qed

text \<open>
  C3 at a request whose campaign id matches no campaign: \<open>track_open\<close> raises the 404,
  \<open>track_click\<close> turns it into a 500; neither adds a row.
\<close>

theorem C3_unknown_campaign_evaluated:
  "query_Campaign_first 99 example_db = None \<and>
   track_open example_request ''a@x.com'' 99 example_db =
     (Inl (HTTPException 404 (Detail ''Campaign not found'')), example_db) \<and>
   track_click example_request ''a@x.com'' 99 example_db =
     (Inl (HTTPException 500 (Str (HTTPException 404 (Detail ''Campaign not found'')))),
      example_db)"
proof -
  have c: "query_Campaign_first 99 example_db = None"
    by (simp add: query_Campaign_first_def example_db_def)
  have r: "db_rollback example_db = example_db"
    by (simp add: db_rollback_def example_db_def)
  show ?thesis
    unfolding track_open_def track_click_def ONE_PIXEL_GIF_bytes
    by (simp add: c r)
qed

section \<open>Submitting the form\<close>

lemma int_on_examples_values:
  "int_on_examples ''5'' = Some 5" "int_on_examples ''42'' = Some 42"
  "int_on_examples ''1'' = Some 1" "int_on_examples ''7'' = Some 7"
  "int_on_examples ''abc'' = None"
  by (simp_all add: int_on_examples_def)

lemma convert_ids_ok:
  "int_of_str cs = Some c \<Longrightarrow> int_of_str es = Some e \<Longrightarrow>
   convert_ids int_of_str (Some cs) (Some es) = Inr (c, e)"
  by (simp add: convert_ids_def int_of_value_def)

lemma convert_ids_bad_campaign:
  "int_of_str cs = None \<Longrightarrow>
   convert_ids int_of_str (Some cs) v = Inl (HTTPException 400 (Detail ''Invalid ID format''))"
  by (simp add: convert_ids_def int_of_value_def)

lemma convert_ids_bad_employee:
  "int_of_str es = None \<Longrightarrow>
   convert_ids int_of_str (Some cs) (Some es) =
     Inl (HTTPException 400 (Detail ''Invalid ID format''))"
  by (cases "int_of_str cs") (simp_all add: convert_ids_def int_of_value_def)

lemma track_submitted_missing:
  "\<not> list_all truthy [form request ''employee_email'', form request ''campaign_id'',
                        form request ''employee_id''] \<Longrightarrow>
   track_submitted int_of_str request db =
     (Inl (HTTPException 400 (Detail ''Missing required fields'')), db_rollback db)"
  unfolding track_submitted_def Let_def by simp

lemma track_submitted_invalid:
  assumes "list_all truthy [form request ''employee_email'', form request ''campaign_id'',
                            form request ''employee_id'']"
    and "convert_ids int_of_str (form request ''campaign_id'') (form request ''employee_id'') =
           Inl (HTTPException 400 (Detail ''Invalid ID format''))"
  shows "track_submitted int_of_str request db =
     (Inl (HTTPException 400 (Detail ''Invalid ID format'')), db_rollback db)"
  unfolding track_submitted_def Let_def using assms by simp

lemma track_submitted_ok:
  assumes "form request ''employee_email'' = Some email" and "email \<noteq> []"
    and "form request ''campaign_id'' = Some cs" and "cs \<noteq> []"
    and "int_of_str cs = Some campaign_id"
    and "form request ''employee_id'' = Some es" and "es \<noteq> []"
    and "int_of_str es = Some employee_id"
    and "pending db = []"
  shows "track_submitted int_of_str request db =
     (Inr (TemplateResponse ''training.html''
             [(''request'', CRequest request), (''campaign_id'', CInt campaign_id),
              (''email'', CStr email)]),
      db\<lparr>events := events db @
             [\<lparr>ev_id = next_id db, ev_email = email, ev_ip = client_host request,
               ev_event_type = SUBMITTED, ev_campaign_id = campaign_id,
               ev_employee_id = employee_id, ev_timestamp = clock db\<rparr>],
         next_id := next_id db + 1\<rparr>)"
proof -
  have t: "list_all truthy [form request ''employee_email'', form request ''campaign_id'',
                            form request ''employee_id'']"
    by (simp add: truthy_def assms(1,2,3,4,6,7))
  have c: "convert_ids int_of_str (form request ''campaign_id'')
             (form request ''employee_id'') = Inr (campaign_id, employee_id)"
    by (simp add: assms(3,6) convert_ids_ok [OF assms(5,8)])
  show ?thesis
    unfolding track_submitted_def Let_def
    using t by (simp add: c assms(1) add_commit [OF assms(9)])
qed

text \<open>
  C4 (as amended). Whatever strings \<^verbatim>\<open>int\<close> accepts: for every request to
  \<open>track_submitted\<close> whose form carries the three fields, none of them empty, with
  \<open>campaign_id\<close> and \<open>employee_id\<close> accepted by \<^verbatim>\<open>int\<close>, exactly one row of kind
  \<open>SUBMITTED\<close> is appended. Its employee id is the number in the form, not one found by
  the email; nothing is required of the campaigns and employees of the store. The response
  is the page \<^verbatim>\<open>training.html\<close> with the campaign id and the email.
\<close>

theorem C4_track_submitted_inserts:
  assumes "form request ''employee_email'' = Some email" and "email \<noteq> []"
    and "form request ''campaign_id'' = Some cs" and "cs \<noteq> []"
    and "int_of_str cs = Some campaign_id"
    and "form request ''employee_id'' = Some es" and "es \<noteq> []"
    and "int_of_str es = Some employee_id"
    and "pending db = []"
  shows "track_submitted int_of_str request db =
     (Inr (TemplateResponse ''training.html''
             [(''request'', CRequest request), (''campaign_id'', CInt campaign_id),
              (''email'', CStr email)]),
      db\<lparr>events := events db @
             [\<lparr>ev_id = next_id db, ev_email = email, ev_ip = client_host request,
               ev_event_type = SUBMITTED, ev_campaign_id = campaign_id,
               ev_employee_id = employee_id, ev_timestamp = clock db\<rparr>],
         next_id := next_id db + 1\<rparr>)"
  using assms by (rule track_submitted_ok)

text \<open>
  A form naming campaign 5 and employee 42, neither of which the example store holds, is
  recorded all the same.
\<close>

theorem C4_witness:
  "form submitted_request ''employee_email'' = Some ''a@x.com'' \<and> ''a@x.com'' \<noteq> [] \<and>
   form submitted_request ''campaign_id'' = Some ''5'' \<and> ''5'' \<noteq> [] \<and>
   int_on_examples ''5'' = Some 5 \<and>
   form submitted_request ''employee_id'' = Some ''42'' \<and> ''42'' \<noteq> [] \<and>
   int_on_examples ''42'' = Some 42 \<and>
   pending example_db = [] \<and>
   query_Campaign_first 5 example_db = None \<and>
   find (\<lambda>e. e_id e = 42) (employees example_db) = None \<and>
   track_submitted int_on_examples submitted_request example_db =
     (Inr (TemplateResponse ''training.html''
             [(''request'', CRequest submitted_request), (''campaign_id'', CInt 5),
              (''email'', CStr ''a@x.com'')]),
      example_db\<lparr>events := [\<lparr>ev_id = 1, ev_email = ''a@x.com'', ev_ip = ''10.0.0.5'',
                               ev_event_type = SUBMITTED, ev_campaign_id = 5,
                               ev_employee_id = 42, ev_timestamp = 1000\<rparr>],
                 next_id := 2\<rparr>)"
proof -
  have h1: "form submitted_request ''employee_email'' = Some ''a@x.com''"
    by (simp add: submitted_request_def)
  have h2: "''a@x.com'' \<noteq> []" by simp
  have h3: "form submitted_request ''campaign_id'' = Some ''5''"
    by (simp add: submitted_request_def)
  have h3': "''5'' \<noteq> []" by simp
  have h4: "int_on_examples ''5'' = Some 5" by (rule int_on_examples_values)
  have h5: "form submitted_request ''employee_id'' = Some ''42''"
    by (simp add: submitted_request_def)
  have h5': "''42'' \<noteq> []" by simp
  have h6: "int_on_examples ''42'' = Some 42" by (rule int_on_examples_values)
  have h7: "pending example_db = []" by (simp add: example_db_def)
  have n1: "query_Campaign_first 5 example_db = None"
    by (simp add: query_Campaign_first_def example_db_def)
  have n2: "find (\<lambda>e. e_id e = 42) (employees example_db) = None"
    by (simp add: example_db_def)
  have c: "client_host submitted_request = ''10.0.0.5''"
    by (simp add: submitted_request_def)
  have d: "events example_db = []" "next_id example_db = 1" "clock example_db = 1000"
    by (simp_all add: example_db_def)
  from C4_track_submitted_inserts [OF h1 h2 h3 h3' h4 h5 h5' h6 h7]
  have "track_submitted int_on_examples submitted_request example_db =
     (Inr (TemplateResponse ''training.html''
             [(''request'', CRequest submitted_request), (''campaign_id'', CInt 5),
              (''email'', CStr ''a@x.com'')]),
      example_db\<lparr>events := [\<lparr>ev_id = 1, ev_email = ''a@x.com'', ev_ip = ''10.0.0.5'',
                               ev_event_type = SUBMITTED, ev_campaign_id = 5,
                               ev_employee_id = 42, ev_timestamp = 1000\<rparr>],
                 next_id := 2\<rparr>)"
    by (simp add: c d)
  with h1 h2 h3 h3' h4 h5 h5' h6 h7 n1 n2 show ?thesis by blast
qed

text \<open>
  C4 as stated asks only that the three fields be carried. A form that carries an empty
  \<open>employee_email\<close> next to two well-formed ids is refused as having missing fields, and
  no row is added.
\<close>

theorem C4_counterexample:
  "form blank_email_request ''employee_email'' = Some '''' \<and>
   form blank_email_request ''campaign_id'' = Some ''1'' \<and> int_on_examples ''1'' = Some 1 \<and>
   form blank_email_request ''employee_id'' = Some ''7'' \<and> int_on_examples ''7'' = Some 7 \<and>
   track_submitted int_on_examples blank_email_request example_db =
     (Inl (HTTPException 400 (Detail ''Missing required fields'')), example_db)"
proof -
  have f: "form blank_email_request ''employee_email'' = Some ''''"
    "form blank_email_request ''campaign_id'' = Some ''1''"
    "form blank_email_request ''employee_id'' = Some ''7''"
    by (simp_all add: blank_email_request_def)
  have t: "\<not> list_all truthy [form blank_email_request ''employee_email'',
             form blank_email_request ''campaign_id'', form blank_email_request ''employee_id'']"
    by (simp add: f truthy_def)
  have r: "db_rollback example_db = example_db"
    by (simp add: db_rollback_def example_db_def)
  from track_submitted_missing [OF t, of int_on_examples example_db] f
    int_on_examples_values(3,4) r
  show ?thesis by simp
qed

lemma track_submitted_bad_request:
  assumes "form request ''employee_email'' = None \<or>
           form request ''campaign_id'' = None \<or>
           form request ''employee_id'' = None \<or>
           (\<exists>s. form request ''campaign_id'' = Some s \<and> int_of_str s = None) \<or>
           (\<exists>s. form request ''employee_id'' = Some s \<and> int_of_str s = None)"
  shows "\<exists>d. track_submitted int_of_str request db =
               (Inl (HTTPException 400 d), db_rollback db)"
proof (cases "list_all truthy [form request ''employee_email'', form request ''campaign_id'',
                                form request ''employee_id'']")
  case False
  then show ?thesis using track_submitted_missing by blast
next
  case True
  then obtain em cs es where f: "form request ''employee_email'' = Some em"
    "form request ''campaign_id'' = Some cs" "form request ''employee_id'' = Some es"
    by (auto simp: truthy_def split: option.splits)
  from assms f have "int_of_str cs = None \<or> int_of_str es = None"
    by auto
  then have "convert_ids int_of_str (form request ''campaign_id'')
               (form request ''employee_id'') =
               Inl (HTTPException 400 (Detail ''Invalid ID format''))"
    using f convert_ids_bad_campaign convert_ids_bad_employee by auto
  from track_submitted_invalid [OF True this] show ?thesis by blast
qed

lemma events_db_rollback: "events (db_rollback db) = events db"
  by (simp add: db_rollback_def)

text \<open>
  C5. Whatever strings \<^verbatim>\<open>int\<close> accepts: for every request to \<open>track_submitted\<close>
  whose form lacks one of the three fields, or whose \<open>campaign_id\<close> or \<open>employee_id\<close> is
  refused by \<^verbatim>\<open>int\<close>, the handler raises an \<^verbatim>\<open>HTTPException\<close> with status 400 and
  the events are as before; after any number of repetitions of the request they still are.
\<close>

theorem C5_track_submitted_bad_request:
  assumes "form request ''employee_email'' = None \<or>
           form request ''campaign_id'' = None \<or>
           form request ''employee_id'' = None \<or>
           (\<exists>s. form request ''campaign_id'' = Some s \<and> int_of_str s = None) \<or>
           (\<exists>s. form request ''employee_id'' = Some s \<and> int_of_str s = None)"
  shows "(\<exists>d. fst (track_submitted int_of_str request db) = Inl (HTTPException 400 d)) \<and>
         events (snd (track_submitted int_of_str request db)) = events db \<and>
         events (((\<lambda>db. snd (track_submitted int_of_str request db)) ^^ n) db) = events db"
proof -
  have once: "\<exists>d. track_submitted int_of_str request db' =
                    (Inl (HTTPException 400 d), db_rollback db')"
    for db'
    using assms by (rule track_submitted_bad_request)
  have step: "events (snd (track_submitted int_of_str request db')) = events db'" for db'
    using once [of db'] by (auto simp: events_db_rollback)
  have many: "events (((\<lambda>db. snd (track_submitted int_of_str request db)) ^^ n) db) =
                events db"
    by (induction n) (simp_all add: step)
  from once [of db]
  have "\<exists>d. fst (track_submitted int_of_str request db) = Inl (HTTPException 400 d)"
    by auto
  with step many show ?thesis by blast
qed

text \<open>The form whose campaign id is \<^verbatim>\<open>abc\<close>, submitted once and three times.\<close>

theorem C5_witness:
  "(form abc_request ''employee_email'' = None \<or>
    form abc_request ''campaign_id'' = None \<or>
    form abc_request ''employee_id'' = None \<or>
    (\<exists>s. form abc_request ''campaign_id'' = Some s \<and> int_on_examples s = None) \<or>
    (\<exists>s. form abc_request ''employee_id'' = Some s \<and> int_on_examples s = None)) \<and>
   fst (track_submitted int_on_examples abc_request example_db) =
     Inl (HTTPException 400 (Detail ''Invalid ID format'')) \<and>
   events (snd (track_submitted int_on_examples abc_request example_db)) = [] \<and>
   events (((\<lambda>db. snd (track_submitted int_on_examples abc_request db)) ^^ 3) example_db) = []"
proof -
  have f: "form abc_request ''employee_email'' = Some ''a@x.com''"
    "form abc_request ''campaign_id'' = Some ''abc''"
    "form abc_request ''employee_id'' = Some ''7''"
    by (simp_all add: abc_request_def)
  have h: "form abc_request ''employee_email'' = None \<or>
    form abc_request ''campaign_id'' = None \<or>
    form abc_request ''employee_id'' = None \<or>
    (\<exists>s. form abc_request ''campaign_id'' = Some s \<and> int_on_examples s = None) \<or>
    (\<exists>s. form abc_request ''employee_id'' = Some s \<and> int_on_examples s = None)"
    using f(2) int_on_examples_values(5) by blast
  have t: "list_all truthy [form abc_request ''employee_email'',
             form abc_request ''campaign_id'', form abc_request ''employee_id'']"
    by (simp add: f truthy_def)
  have c: "convert_ids int_on_examples (form abc_request ''campaign_id'')
             (form abc_request ''employee_id'') =
             Inl (HTTPException 400 (Detail ''Invalid ID format''))"
    by (simp add: f(2) convert_ids_bad_campaign [of int_on_examples "''abc''", OF int_on_examples_values(5)])
  have v: "fst (track_submitted int_on_examples abc_request example_db) =
             Inl (HTTPException 400 (Detail ''Invalid ID format''))"
    by (simp add: track_submitted_invalid [OF t c])
  have e: "events example_db = []" by (simp add: example_db_def)
  from C5_track_submitted_bad_request [OF h, of example_db 3] h v e
  show ?thesis by simp
qed

section \<open>Reporting a message, downloading an attachment\<close>

lemma track_reported_found:
  assumes "query_Employee_first email db = Some employee" and "pending db = []"
  shows "track_reported request email campaign_id db =
          (Inr (TemplateResponse ''reported.html'' [(''request'', CRequest request)]),
           db\<lparr>events := events db @
                  [\<lparr>ev_id = next_id db, ev_email = email, ev_ip = client_host request,
                    ev_event_type = REPORTED, ev_campaign_id = campaign_id,
                    ev_employee_id = e_id employee, ev_timestamp = clock db\<rparr>],
              next_id := next_id db + 1\<rparr>)"
  unfolding track_reported_def
  by (simp add: assms(1) add_commit [OF assms(2)])

lemma track_downloaded_found:
  assumes "query_Employee_first email db = Some employee" and "pending db = []"
  shows "track_downloaded request email campaign_id db =
          (Inr (JSONDict [(''status'', ''success'')]),
           db\<lparr>events := events db @
                  [\<lparr>ev_id = next_id db, ev_email = email, ev_ip = client_host request,
                    ev_event_type = DOWNLOADED_ATTACHMENT, ev_campaign_id = campaign_id,
                    ev_employee_id = e_id employee, ev_timestamp = clock db\<rparr>],
              next_id := next_id db + 1\<rparr>)"
  unfolding track_downloaded_def
  by (simp add: assms(1) add_commit [OF assms(2)])

text \<open>
  C8. For every request to \<open>track_reported\<close> and to \<open>track_downloaded\<close> with the email
  of an employee, in a session with nothing pending, exactly one row is appended, of kind
  \<open>REPORTED\<close> and \<open>DOWNLOADED_ATTACHMENT\<close>, with the campaign id as supplied; nothing
  is required of the campaigns of the store. The first answers with the page
  \<^verbatim>\<open>reported.html\<close>, the second with \<^verbatim>\<open>{"status": "success"}\<close>.
\<close>

theorem C8_reported_and_downloaded:
  assumes "\<exists>e\<in>set (employees db). e_email e = email" and "pending db = []"
  shows "\<exists>employee\<in>set (employees db).
           e_email employee = email \<and>
           track_reported request email campaign_id db =
             (Inr (TemplateResponse ''reported.html'' [(''request'', CRequest request)]),
              db\<lparr>events := events db @
                     [\<lparr>ev_id = next_id db, ev_email = email, ev_ip = client_host request,
                       ev_event_type = REPORTED, ev_campaign_id = campaign_id,
                       ev_employee_id = e_id employee, ev_timestamp = clock db\<rparr>],
                 next_id := next_id db + 1\<rparr>) \<and>
           track_downloaded request email campaign_id db =
             (Inr (JSONDict [(''status'', ''success'')]),
              db\<lparr>events := events db @
                     [\<lparr>ev_id = next_id db, ev_email = email, ev_ip = client_host request,
                       ev_event_type = DOWNLOADED_ATTACHMENT, ev_campaign_id = campaign_id,
                       ev_employee_id = e_id employee, ev_timestamp = clock db\<rparr>],
                 next_id := next_id db + 1\<rparr>)"
proof -
  from query_Employee_first_exists [OF assms(1)]
  obtain employee where e: "employee \<in> set (employees db)" "e_email employee = email"
    "query_Employee_first email db = Some employee" by blast
  show ?thesis
  proof (rule bexI [OF _ e(1)], intro conjI)
    show "e_email employee = email" by (rule e(2))
  qed (rule track_reported_found [OF e(3) assms(2)],
       rule track_downloaded_found [OF e(3) assms(2)])
qed

text \<open>Both handlers record campaign 99, which the example store does not hold.\<close>

theorem C8_witness:
  "(\<exists>e\<in>set (employees example_db). e_email e = ''a@x.com'') \<and>
   pending example_db = [] \<and>
   query_Campaign_first 99 example_db = None \<and>
   track_reported example_request ''a@x.com'' 99 example_db =
     (Inr (TemplateResponse ''reported.html'' [(''request'', CRequest example_request)]),
      example_db\<lparr>events := [\<lparr>ev_id = 1, ev_email = ''a@x.com'', ev_ip = ''10.0.0.5'',
                               ev_event_type = REPORTED, ev_campaign_id = 99,
                               ev_employee_id = 7, ev_timestamp = 1000\<rparr>],
                 next_id := 2\<rparr>) \<and>
   track_downloaded example_request ''a@x.com'' 99 example_db =
     (Inr (JSONDict [(''status'', ''success'')]),
      example_db\<lparr>events := [\<lparr>ev_id = 1, ev_email = ''a@x.com'', ev_ip = ''10.0.0.5'',
                               ev_event_type = DOWNLOADED_ATTACHMENT, ev_campaign_id = 99,
                               ev_employee_id = 7, ev_timestamp = 1000\<rparr>],
                 next_id := 2\<rparr>)"
proof -
  have h1: "\<exists>e\<in>set (employees example_db). e_email e = ''a@x.com''"
    by (simp add: example_db_def)
  have h2: "pending example_db = []"
    by (simp add: example_db_def)
  have n: "query_Campaign_first 99 example_db = None"
    by (simp add: query_Campaign_first_def example_db_def)
  from C8_reported_and_downloaded [OF h1 h2, of example_request 99]
  have "track_reported example_request ''a@x.com'' 99 example_db =
     (Inr (TemplateResponse ''reported.html'' [(''request'', CRequest example_request)]),
      example_db\<lparr>events := [\<lparr>ev_id = 1, ev_email = ''a@x.com'', ev_ip = ''10.0.0.5'',
                               ev_event_type = REPORTED, ev_campaign_id = 99,
                               ev_employee_id = 7, ev_timestamp = 1000\<rparr>],
                 next_id := 2\<rparr>) \<and>
   track_downloaded example_request ''a@x.com'' 99 example_db =
     (Inr (JSONDict [(''status'', ''success'')]),
      example_db\<lparr>events := [\<lparr>ev_id = 1, ev_email = ''a@x.com'', ev_ip = ''10.0.0.5'',
                               ev_event_type = DOWNLOADED_ATTACHMENT, ev_campaign_id = 99,
                               ev_employee_id = 7, ev_timestamp = 1000\<rparr>],
                 next_id := 2\<rparr>)"
    by (auto simp: example_db_def example_request_def)
  with h1 h2 n show ?thesis by blast
qed

section \<open>Listing\<close>

lemma join_listed_db:
  "join_Campaign listed_db =
     [(\<lparr>ev_id = 1, ev_email = ''a@x.com'', ev_ip = ''10.0.0.5'',
        ev_event_type = OPEN, ev_campaign_id = 1, ev_employee_id = 7,
        ev_timestamp = 1000\<rparr>, ''Q1 Phish'')]"
  by (simp add: join_Campaign_def listed_db_def)

lemma get_events_listed_db:
  "get_events member_name None None listed_db = (Inr [listed_view], listed_db)"
  "get_events member_name (Some 0) None listed_db = (Inr [listed_view], listed_db)"
  "get_events member_name None (Some 0) listed_db = (Inr [listed_view], listed_db)"
  "get_events member_name (Some 1) (Some 7) listed_db = (Inr [listed_view], listed_db)"
  "get_events member_name (Some 5) None listed_db = (Inr [], listed_db)"
  by (simp_all add: get_events_def join_listed_db to_EventResponse_def listed_view_def)

lemma set_join_Campaign:
  "set (join_Campaign db) =
     {(ev, c_name c) | ev c. ev \<in> set (events db) \<and> c \<in> set (campaigns db) \<and>
                             c_id c = ev_campaign_id ev}"
  by (auto simp: join_Campaign_def)

lemma get_events_unfiltered:
  "get_events value None None db = (Inr (map (to_EventResponse value) (join_Campaign db)), db)"
  by (simp add: get_events_def)

lemma get_events_by_campaign:
  "x \<noteq> 0 \<Longrightarrow>
   get_events value (Some x) None db =
     (Inr (filter (\<lambda>r. r_campaign_id r = x) (map (to_EventResponse value) (join_Campaign db))),
      db)"
  by (simp add: get_events_def filter_map comp_def to_EventResponse_def)

lemma get_events_by_employee:
  "y \<noteq> 0 \<Longrightarrow>
   get_events value None (Some y) db =
     (Inr (filter (\<lambda>r. r_employee_id r = y) (map (to_EventResponse value) (join_Campaign db))),
      db)"
  by (simp add: get_events_def filter_map comp_def to_EventResponse_def)

lemma get_events_by_both:
  "x \<noteq> 0 \<Longrightarrow> y \<noteq> 0 \<Longrightarrow>
   get_events value (Some x) (Some y) db =
     (Inr (filter (\<lambda>r. r_campaign_id r = x \<and> r_employee_id r = y)
             (map (to_EventResponse value) (join_Campaign db))), db)"
  by (simp add: get_events_def filter_map comp_def to_EventResponse_def)

lemma concat_map_removeAll:
  "f x = [] \<Longrightarrow> concat (map f (removeAll x xs)) = concat (map f xs)"
  by (induction xs) auto

lemma join_Campaign_without_orphan:
  assumes "\<forall>c\<in>set (campaigns db). c_id c \<noteq> ev_campaign_id ev"
  shows "join_Campaign (db\<lparr>events := removeAll ev (events db)\<rparr>) = join_Campaign db"
proof -
  have "filter (\<lambda>c. c_id c = ev_campaign_id ev) (campaigns db) = []"
    using assms by (simp add: filter_empty_conv)
  then show ?thesis
    by (simp add: join_Campaign_def concat_map_removeAll)
qed

lemma get_events_rows:
  "\<exists>q. get_events value campaign_id employee_id db =
         (Inr (map (to_EventResponse value) q), db) \<and>
       set q \<subseteq> set (join_Campaign db)"
proof -
  define q1 where "q1 = (case campaign_id of None \<Rightarrow> join_Campaign db
     | Some x \<Rightarrow> if x \<noteq> 0 then filter (\<lambda>row. ev_campaign_id (fst row) = x) (join_Campaign db)
                else join_Campaign db)"
  define q2 where "q2 = (case employee_id of None \<Rightarrow> q1
     | Some y \<Rightarrow> if y \<noteq> 0 then filter (\<lambda>row. ev_employee_id (fst row) = y) q1 else q1)"
  have "set q1 \<subseteq> set (join_Campaign db)"
    by (auto simp: q1_def split: option.splits)
  moreover have "set q2 \<subseteq> set q1"
    by (auto simp: q2_def split: option.splits)
  moreover have "get_events value campaign_id employee_id db =
                   (Inr (map (to_EventResponse value) q2), db)"
    by (cases campaign_id; cases employee_id) (simp_all add: get_events_def q1_def q2_def)
  ultimately show ?thesis by blast
qed

text \<open>
  C6 (as amended). The rows that \<open>get_events\<close> works on are the events joined with their
  campaign: the pairs of an event and the name of a campaign whose id is the event's
  \<open>campaign_id\<close>. With no filter all of them are returned; with a \<open>campaign_id\<close> other
  than 0 exactly those of that campaign; with an \<open>employee_id\<close> other than 0 exactly
  those of that employee; with both, exactly those that pass both tests.
\<close>

theorem C6_get_events_filters:
  assumes "x \<noteq> 0" and "y \<noteq> 0"
  shows "get_events value (Some x) None db =
           (Inr (filter (\<lambda>r. r_campaign_id r = x)
                   (map (to_EventResponse value) (join_Campaign db))), db) \<and>
         get_events value None (Some y) db =
           (Inr (filter (\<lambda>r. r_employee_id r = y)
                   (map (to_EventResponse value) (join_Campaign db))), db) \<and>
         get_events value (Some x) (Some y) db =
           (Inr (filter (\<lambda>r. r_campaign_id r = x \<and> r_employee_id r = y)
                   (map (to_EventResponse value) (join_Campaign db))), db) \<and>
         get_events value None None db =
           (Inr (map (to_EventResponse value) (join_Campaign db)), db) \<and>
         set (join_Campaign db) =
           {(ev, c_name c) | ev c. ev \<in> set (events db) \<and> c \<in> set (campaigns db) \<and>
                                   c_id c = ev_campaign_id ev}"
  using get_events_by_campaign [OF assms(1)] get_events_by_employee [OF assms(2)]
    get_events_by_both [OF assms] get_events_unfiltered set_join_Campaign
  by blast

text \<open>The filters 1 and 7 on a store with one event of campaign 1 and employee 7.\<close>

theorem C6_witness:
  "(1::int) \<noteq> 0 \<and> (7::int) \<noteq> 0 \<and>
   get_events member_name (Some 1) None listed_db = (Inr [listed_view], listed_db) \<and>
   get_events member_name None (Some 7) listed_db = (Inr [listed_view], listed_db) \<and>
   get_events member_name (Some 1) (Some 7) listed_db = (Inr [listed_view], listed_db) \<and>
   get_events member_name None None listed_db = (Inr [listed_view], listed_db)"
proof -
  have h1: "(1::int) \<noteq> 0" by simp
  have h2: "(7::int) \<noteq> 0" by simp
  from C6_get_events_filters [OF h1 h2, of member_name listed_db]
  show ?thesis
    by (simp add: join_listed_db to_EventResponse_def listed_view_def)
qed

text \<open>
  C6 as stated fails twice on a store of two events, one of campaign 1 and one of a
  campaign 5 that does not exist: the filter \<open>campaign_id = 0\<close> (and likewise
  \<open>employee_id = 0\<close>) returns an event whose id is not 0, and the listing without
  filters returns one of the two events.
\<close>

theorem C6_counterexample:
  "get_events member_name (Some 0) None listed_db = (Inr [listed_view], listed_db) \<and>
   r_campaign_id listed_view \<noteq> 0 \<and>
   get_events member_name None (Some 0) listed_db = (Inr [listed_view], listed_db) \<and>
   r_employee_id listed_view \<noteq> 0 \<and>
   get_events member_name None None listed_db = (Inr [listed_view], listed_db) \<and>
   length (events listed_db) = 2"
proof -
  have "r_campaign_id listed_view \<noteq> 0" "r_employee_id listed_view \<noteq> 0"
    by (simp_all add: listed_view_def)
  moreover have "length (events listed_db) = 2"
    by (simp add: listed_db_def)
  ultimately show ?thesis
    using get_events_listed_db(1,2,3) by blast
qed

text \<open>
  C7. \<open>get_events\<close> leaves the session as it found it, and every \<open>EventResponse\<close> it
  returns carries the columns of an event of the store together with the name of a
  campaign of the store whose id is that event's \<open>campaign_id\<close>.
\<close>

theorem C7_get_events_views:
  "snd (get_events value campaign_id employee_id db) = db \<and>
   (\<exists>views. fst (get_events value campaign_id employee_id db) = Inr views \<and>
      (\<forall>r\<in>set views. \<exists>ev\<in>set (events db). \<exists>c\<in>set (campaigns db).
          c_id c = ev_campaign_id ev \<and>
          r = \<lparr>r_id = ev_id ev, r_email = ev_email ev, r_ip = ev_ip ev,
               r_event_type = value (ev_event_type ev),
               r_campaign_id = ev_campaign_id ev, r_employee_id = ev_employee_id ev,
               r_campaign_name = c_name c, r_timestamp = ev_timestamp ev\<rparr>))"
proof -
  from get_events_rows [of "value" campaign_id employee_id db]
  obtain q where q: "get_events value campaign_id employee_id db =
      (Inr (map (to_EventResponse value) q), db)" "set q \<subseteq> set (join_Campaign db)"
    by blast
  have "\<exists>ev\<in>set (events db). \<exists>c\<in>set (campaigns db).
          c_id c = ev_campaign_id ev \<and>
          r = \<lparr>r_id = ev_id ev, r_email = ev_email ev, r_ip = ev_ip ev,
               r_event_type = value (ev_event_type ev),
               r_campaign_id = ev_campaign_id ev, r_employee_id = ev_employee_id ev,
               r_campaign_name = c_name c, r_timestamp = ev_timestamp ev\<rparr>"
    if "r \<in> set (map (to_EventResponse value) q)" for r
  proof -
    from that obtain row where row: "row \<in> set q" "r = to_EventResponse value row"
      by auto
    with q(2) have "row \<in> set (join_Campaign db)" by blast
    then obtain ev c where "row = (ev, c_name c)" "ev \<in> set (events db)"
      "c \<in> set (campaigns db)" "c_id c = ev_campaign_id ev"
      unfolding set_join_Campaign by blast
    with row(2) show ?thesis
      by (auto simp: to_EventResponse_def)
  qed
  with q(1) show ?thesis by simp
qed

text \<open>The one row listed from the store of two events.\<close>

theorem C7_witness:
  "snd (get_events member_name None None listed_db) = listed_db \<and>
   fst (get_events member_name None None listed_db) = Inr [listed_view] \<and>
   (\<exists>ev\<in>set (events listed_db). \<exists>c\<in>set (campaigns listed_db).
       c_id c = ev_campaign_id ev \<and>
       listed_view = \<lparr>r_id = ev_id ev, r_email = ev_email ev, r_ip = ev_ip ev,
               r_event_type = member_name (ev_event_type ev),
               r_campaign_id = ev_campaign_id ev, r_employee_id = ev_employee_id ev,
               r_campaign_name = c_name c, r_timestamp = ev_timestamp ev\<rparr>)"
  using C7_get_events_views [of member_name None None listed_db]
  by (simp add: get_events_listed_db(1))

text \<open>
  C9. An event whose \<open>campaign_id\<close> is the id of no campaign adds nothing to any listing:
  whatever the filters, the result is the one obtained without that event, and no row of
  the result has its \<open>campaign_id\<close>.
\<close>

theorem C9_orphan_event_omitted:
  assumes "ev \<in> set (events db)"
    and "\<forall>c\<in>set (campaigns db). c_id c \<noteq> ev_campaign_id ev"
  shows "fst (get_events value campaign_id employee_id db) =
           fst (get_events value campaign_id employee_id
                  (db\<lparr>events := removeAll ev (events db)\<rparr>)) \<and>
         (\<exists>views. fst (get_events value campaign_id employee_id db) = Inr views \<and>
            (\<forall>r\<in>set views. r_campaign_id r \<noteq> ev_campaign_id ev))"
proof -
  have same: "fst (get_events value campaign_id employee_id db) =
           fst (get_events value campaign_id employee_id
                  (db\<lparr>events := removeAll ev (events db)\<rparr>))"
    by (simp add: get_events_def Let_def join_Campaign_without_orphan [OF assms(2)])
  from get_events_rows [of "value" campaign_id employee_id db]
  obtain q where q: "get_events value campaign_id employee_id db =
      (Inr (map (to_EventResponse value) q), db)" "set q \<subseteq> set (join_Campaign db)"
    by blast
  have omitted: "r_campaign_id r \<noteq> ev_campaign_id ev"
    if "r \<in> set (map (to_EventResponse value) q)" for r
  proof -
    from that obtain row where row: "row \<in> set q" "r = to_EventResponse value row"
      by auto
    with q(2) have "row \<in> set (join_Campaign db)" by blast
    then obtain ev' c where "row = (ev', c_name c)" "c \<in> set (campaigns db)"
      "c_id c = ev_campaign_id ev'"
      unfolding set_join_Campaign by blast
    with row(2) assms(2) show ?thesis
      by (auto simp: to_EventResponse_def)
  qed
  have v: "fst (get_events value campaign_id employee_id db) =
             Inr (map (to_EventResponse value) q)"
    using q(1) by simp
  have "\<exists>views. fst (get_events value campaign_id employee_id db) = Inr views \<and>
          (\<forall>r\<in>set views. r_campaign_id r \<noteq> ev_campaign_id ev)"
    using v omitted by blast
  with same show ?thesis by (rule conjI)
qed

text \<open>
  The event that \<open>track_submitted\<close> records for campaign 5 in the example store is not
  listed.
\<close>

theorem C9_witness:
  "snd (track_submitted int_on_examples submitted_request example_db) = submitted_db \<and>
   \<lparr>ev_id = 1, ev_email = ''a@x.com'', ev_ip = ''10.0.0.5'', ev_event_type = SUBMITTED,
    ev_campaign_id = 5, ev_employee_id = 42, ev_timestamp = 1000\<rparr> \<in> set (events submitted_db) \<and>
   map c_id (campaigns submitted_db) = [1] \<and>
   fst (get_events member_name None None submitted_db) = Inr []"
proof -
  let ?ev = "\<lparr>ev_id = 1, ev_email = ''a@x.com'', ev_ip = ''10.0.0.5'',
    ev_event_type = SUBMITTED, ev_campaign_id = 5, ev_employee_id = 42,
    ev_timestamp = 1000\<rparr>"
  have f: "form submitted_request ''employee_email'' = Some ''a@x.com''"
    "form submitted_request ''campaign_id'' = Some ''5''"
    "form submitted_request ''employee_id'' = Some ''42''"
    "client_host submitted_request = ''10.0.0.5''"
    by (simp_all add: submitted_request_def)
  have p: "pending example_db = []" by (simp add: example_db_def)
  have ne: "''a@x.com'' \<noteq> []" by simp
  have ne': "''5'' \<noteq> []" "''42'' \<noteq> []" by simp_all
  note run = track_submitted_ok [OF f(1) ne f(2) ne'(1) int_on_examples_values(1) f(3)
      ne'(2) int_on_examples_values(2) p]
  have ins: "snd (track_submitted int_on_examples submitted_request example_db) =
               submitted_db"
    unfolding run by (simp add: f(4) submitted_db_def example_db_def)
  have h1: "?ev \<in> set (events submitted_db)"
    by (simp add: submitted_db_def)
  have h2: "\<forall>c\<in>set (campaigns submitted_db). c_id c \<noteq> ev_campaign_id ?ev"
    by (simp add: submitted_db_def example_db_def)
  have j: "join_Campaign (submitted_db\<lparr>events := removeAll ?ev (events submitted_db)\<rparr>) = []"
    by (simp add: join_Campaign_def submitted_db_def)
  have "fst (get_events member_name None None
               (submitted_db\<lparr>events := removeAll ?ev (events submitted_db)\<rparr>)) = Inr []"
    unfolding get_events_unfiltered j by simp
  with C9_orphan_event_omitted [OF h1 h2, of member_name None None]
  have "fst (get_events member_name None None submitted_db) = Inr []"
    by simp
  moreover have "map c_id (campaigns submitted_db) = [1]"
    by (simp add: submitted_db_def example_db_def)
  ultimately show ?thesis using ins h1 by simp
qed

text \<open>
  C10. A filter value of 0 is the same as no filter: \<open>campaign_id = 0\<close> gives the
  result of an absent \<open>campaign_id\<close>, and \<open>employee_id = 0\<close> that of an absent
  \<open>employee_id\<close>, whatever the other filter is.
\<close>

theorem C10_zero_filter_skipped:
  "get_events value (Some 0) employee_id db = get_events value None employee_id db \<and>
   get_events value campaign_id (Some 0) db = get_events value campaign_id None db"
  by (simp add: get_events_def)

text \<open>
  With the filter 0 the event of campaign 1 and employee 7 is listed, not the events with
  id 0.
\<close>

theorem C10_witness:
  "get_events member_name (Some 0) None listed_db = (Inr [listed_view], listed_db) \<and>
   get_events member_name None (Some 0) listed_db = (Inr [listed_view], listed_db) \<and>
   r_campaign_id listed_view = 1 \<and> r_employee_id listed_view = 7"
  using C10_zero_filter_skipped [of member_name None listed_db None]
  by (simp add: get_events_listed_db(1) listed_view_def)

end
